theory Spec2Isabelle
  imports Complex_Main
begin

section \<open>Values on the wire\<close>

text \<open>
  The renderer (\<^verbatim>\<open>renderer/js/app.js\<close>) receives text frames and hands them to
  \<^verbatim>\<open>JSON.parse\<close>. A parsed frame is a JSON value; a JavaScript expression that may be
  \<^verbatim>\<open>undefined\<close> is a \<open>json option\<close> with \<open>None\<close> for \<^verbatim>\<open>undefined\<close>. An object is the
  list of its own properties in the order in which JavaScript enumerates them.
  Numbers are carried as they are: the code only tests them against zero, stores them
  and displays them.
\<close>

datatype json =
    JNull
  | JBool bool
  | JNum real
  | JStr string
  | JArr "json list"
  | JObj "(string \<times> json) list"

datatype error = SyntaxError | TypeError

text \<open>
  A handler that throws leaves the module state as it was at the throw, so both outcomes
  carry the state.
\<close>

datatype 'a result = Done 'a | Threw error 'a

fun stateOf :: "'a result \<Rightarrow> 'a" where
  "stateOf (Done s) = s"
| "stateOf (Threw e s) = s"

fun andThen :: "'a result \<Rightarrow> ('a \<Rightarrow> 'a result) \<Rightarrow> 'a result" where
  "andThen (Done s) f = f s"
| "andThen (Threw e s) f = Threw e s"

text \<open>
  Property read \<^verbatim>\<open>v.k\<close>: a TypeError on \<^verbatim>\<open>undefined\<close> and \<^verbatim>\<open>null\<close>, the own property of
  an object, \<^verbatim>\<open>undefined\<close> on anything else. It is used only with the keys the renderer
  reads (\<^verbatim>\<open>type\<close>, \<^verbatim>\<open>data\<close>, \<^verbatim>\<open>command\<close>, \<^verbatim>\<open>status\<close>, \<^verbatim>\<open>gaze\<close>, \<^verbatim>\<open>GazeX\<close>, \<^verbatim>\<open>GazeY\<close>,
  \<^verbatim>\<open>emotion\<close>, \<^verbatim>\<open>emotion_scores\<close>, \<^verbatim>\<open>confidence\<close>), none of which is inherited from a
  prototype.
\<close>

fun getProp :: "json option \<Rightarrow> string \<Rightarrow> error + json option" where
  "getProp None k = Inl TypeError"
| "getProp (Some JNull) k = Inl TypeError"
| "getProp (Some (JObj ps)) k = Inr (map_of ps k)"
| "getProp (Some v) k = Inr None"

text \<open>Truthiness, as \<^verbatim>\<open>if (v)\<close> and \<^verbatim>\<open>v || 0\<close> test it.\<close>

fun truthy :: "json option \<Rightarrow> bool" where
  "truthy None = False"
| "truthy (Some JNull) = False"
| "truthy (Some (JBool b)) = b"
| "truthy (Some (JNum n)) = (n \<noteq> 0)"
| "truthy (Some (JStr s)) = (s \<noteq> [])"
| "truthy (Some (JArr xs)) = True"
| "truthy (Some (JObj ps)) = True"

text \<open>Decimal rendering of an index, for the index keys of strings and arrays.\<close>

definition digit :: "nat \<Rightarrow> char" where
  "digit d = ''0123456789'' ! d"

fun decimal :: "nat \<Rightarrow> string" where
  "decimal n = (if n < 10 then [digit n] else decimal (n div 10) @ [digit (n mod 10)])"

declare decimal.simps [simp del]

text \<open>
  Object spread \<^verbatim>\<open>{ ...v }\<close>: the own enumerable properties of \<open>v\<close>, none for
  \<^verbatim>\<open>undefined\<close>, \<^verbatim>\<open>null\<close>, numbers and booleans, the indexed elements for strings and
  arrays.
\<close>

fun spread :: "json option \<Rightarrow> (string \<times> json) list" where
  "spread (Some (JObj ps)) = ps"
| "spread (Some (JArr xs)) = zip (map decimal [0..<length xs]) xs"
| "spread (Some (JStr s)) = zip (map decimal [0..<length s]) (map (\<lambda>c. JStr [c]) s)"
| "spread v = []"

text \<open>
  Conversion of a value to a string or a number, as a template literal, an assignment
  to \<^verbatim>\<open>textContent\<close> and a multiplication perform it. It throws a TypeError exactly on
  an object with an own property \<^verbatim>\<open>toString\<close>, which in a parsed value is never a
  function, and on an array with such an element, which \<^verbatim>\<open>join\<close> converts in turn.
  Every other value converts: \<^verbatim>\<open>undefined\<close>, \<^verbatim>\<open>null\<close>, booleans, numbers, strings,
  and the objects that inherit \<^verbatim>\<open>Object.prototype.toString\<close>.
\<close>

fun convertible :: "json \<Rightarrow> bool" where
  "convertible (JObj ps) = (map_of ps ''toString'' = None)"
| "convertible (JArr xs) = list_all convertible xs"
| "convertible v = True"

fun printable :: "json option \<Rightarrow> bool" where
  "printable None = True"
| "printable (Some v) = convertible v"

section \<open>Renderer state\<close>

text \<open>
  \<^verbatim>\<open>state.sessionData\<close> holds the recorded samples. A gaze point is pushed only after
  \<^verbatim>\<open>toFixed\<close> succeeded on both coordinates, so they are numbers; an emotion entry is pushed
  only after \<^verbatim>\<open>charAt\<close> succeeded on the label, so it is a string. Timestamps are readings
  of \<^verbatim>\<open>Date.now()\<close>.
\<close>

record gaze_point =
  gaze_x :: real
  gaze_y :: real
  gaze_timestamp :: int

record emotion_entry =
  emotion :: string
  scores :: "(string \<times> json) list"
  timestamp :: int

record session_data =
  startTime :: "int option"
  emotions :: "emotion_entry list"
  gazePoints :: "gaze_point list"

text \<open>
  \<^verbatim>\<open>state.wsConnection\<close> is \<^verbatim>\<open>null\<close> or a WebSocket, of which the code reads only
  \<^verbatim>\<open>readyState\<close>; the socket itself moves \<open>readyState\<close> before it dispatches an event.
\<close>

datatype ready_state = CONNECTING | OPEN | CLOSING | CLOSED

datatype command = start_tracking | stop_tracking | calibrate

datatype log_entry =
    Text string
  | ServerResponded "json option" "json option"
  | Detected string "json option"

text \<open>
  The count stored under a label of \<^verbatim>\<open>emotionCounts\<close>: a number, or the string that
  \<^verbatim>\<open>(emotionCounts[emotion] || 0) + 1\<close> makes when the label names a member of
  \<^verbatim>\<open>Object.prototype\<close> (a function or object concatenated with \<^verbatim>\<open>1\<close>).
\<close>

datatype count = Count nat | NotNumeric

record summary =
  primaryEmotion :: string
  emotionCounts :: "(string \<times> count) list"
  totalEmotionSamples :: "nat option"
  totalGazeSamples :: "nat option"
  sessionDurationMs :: "int option"

text \<open>
  The export object of \<^verbatim>\<open>exportData\<close>. \<open>startTimeISO\<close> and \<open>endTimeISO\<close> are the instants
  that the source renders with \<^verbatim>\<open>toISOString\<close>; \<^verbatim>\<open>new Date(null)\<close> is the instant 0.
\<close>

record artifact =
  sessionId :: "int option"
  startTimeISO :: int
  endTimeISO :: int
  exportedEmotions :: "emotion_entry list"
  exportedGazePoints :: "gaze_point list"
  exportedSummary :: summary

text \<open>
  The module state \<^verbatim>\<open>state\<close>, the \<^verbatim>\<open>disabled\<close> flag of the four buttons, the log
  container, and what the renderer has emitted: the commands written to the socket, the
  objects passed to \<^verbatim>\<open>window.api.exportData\<close> and the objects offered as a download.
  Text fields, the canvas and the video element are not part of the model.
\<close>

record app_state =
  isTracking :: bool
  wsConnection :: "ready_state option"
  currentEmotions :: "json option"
  gazeData :: "json option \<times> json option"
  sessionData :: session_data
  startBtn :: bool
  stopBtn :: bool
  calibrateBtn :: bool
  exportBtn :: bool
  logContainer :: "log_entry list"
  sent :: "command list"
  apiExports :: "artifact list"
  downloads :: "artifact list"

text \<open>
  The state as the module creates it; \<open>d\<close> is the \<^verbatim>\<open>disabled\<close> flag the page gives the
  buttons.
\<close>

definition initialState :: "bool \<Rightarrow> app_state" where
  "initialState d =
     \<lparr> isTracking = False, wsConnection = None, currentEmotions = Some (JObj []),
       gazeData = (Some (JNum (1/2)), Some (JNum (1/2))),
       sessionData = \<lparr> startTime = None, emotions = [], gazePoints = [] \<rparr>,
       startBtn = d, stopBtn = d, calibrateBtn = d, exportBtn = d,
       logContainer = [], sent = [], apiExports = [], downloads = [] \<rparr>"

section \<open>Renderer operations\<close>

text \<open>\<^verbatim>\<open>addLogEntry\<close>: append, then drop from the front while more than 100 remain.\<close>

definition addLogEntry :: "log_entry \<Rightarrow> app_state \<Rightarrow> app_state" where
  "addLogEntry entry s =
     (let l = logContainer s @ [entry]
      in s\<lparr>logContainer := drop (length l - 100) l\<rparr>)"

text \<open>
  \<^verbatim>\<open>connectWebSocket\<close> creates the socket for the fixed address and installs the four
  handlers that follow. \<^verbatim>\<open>enableButton\<close> and \<^verbatim>\<open>disableButton\<close> set the \<^verbatim>\<open>disabled\<close> flag
  of a button to false and true.
\<close>

definition connectWebSocket :: "app_state \<Rightarrow> app_state" where
  "connectWebSocket s =
     (addLogEntry (Text ''Connecting to eye tracking and emotion detection server...'') s)
       \<lparr>wsConnection := Some CONNECTING\<rparr>"

definition onopen :: "app_state \<Rightarrow> app_state" where
  "onopen s = (addLogEntry (Text ''Connected to server successfully.'') s)\<lparr>startBtn := False\<rparr>"

definition onclose :: "app_state \<Rightarrow> app_state" where
  "onclose s =
     (addLogEntry (Text ''Connection to server closed.'') s)
       \<lparr>startBtn := True, stopBtn := True, calibrateBtn := True, isTracking := False\<rparr>"

definition onerror :: "app_state \<Rightarrow> app_state" where
  "onerror s =
     addLogEntry (Text ''WebSocket error: Please make sure the Python server is running.'') s"

text \<open>
  The two ways in which the channel goes down. The socket sets \<^verbatim>\<open>readyState\<close> to CLOSED
  and dispatches the close event; when the connection failed it dispatches the error
  event first, and the close event follows it.
\<close>

definition channelClose :: "app_state \<Rightarrow> app_state" where
  "channelClose s = onclose (s\<lparr>wsConnection := Some CLOSED\<rparr>)"

definition channelError :: "app_state \<Rightarrow> app_state" where
  "channelError s = onclose (onerror (s\<lparr>wsConnection := Some CLOSED\<rparr>))"

text \<open>
  \<^verbatim>\<open>CONFIG.emotionColors\<close>: \<^verbatim>\<open>initEmotionBars\<close> creates one bar, with the element id
  \<^verbatim>\<open>emotion-bar-\<close> and the key, for each of its keys.
\<close>

definition emotionColors :: "(string \<times> string) list" where
  "emotionColors =
     [(''happy'', ''var(--happy-color)''), (''sad'', ''var(--sad-color)''),
      (''angry'', ''var(--angry-color)''), (''surprise'', ''var(--surprised-color)''),
      (''disgust'', ''var(--disgusted-color)''), (''fear'', ''var(--fearful-color)''),
      (''neutral'', ''var(--neutral-color)''), (''contempt'', ''var(--contempt-color)''),
      (''bored'', ''var(--bored-color)''), (''confused'', ''var(--confused-color)''),
      (''anxious'', ''var(--anxious-color)''), (''excited'', ''var(--excited-color)''),
      (''proud'', ''var(--proud-color)''), (''shame'', ''var(--shameful-color)''),
      (''guilt'', ''var(--guilty-color)'')]"

text \<open>
  \<^verbatim>\<open>updateEmotionBars\<close> changes the bars only, which are not part of the model; what
  remains of it is the TypeError of \<^verbatim>\<open>value * 100\<close>. The loop visits the keys of the
  scores; a bar exists for the keys of \<^verbatim>\<open>CONFIG.emotionColors\<close> only, so the index keys of
  a string or an array find none. \<open>None\<close> is the normal return.
\<close>

definition updateEmotionBars :: "json option \<Rightarrow> error option" where
  "updateEmotionBars emotionScores =
     (case emotionScores of
        Some (JObj ps) \<Rightarrow>
          if list_all (\<lambda>(k, v). if k \<in> set (map fst emotionColors) then convertible v else True) ps
          then None else Some TypeError
      | _ \<Rightarrow> None)"

text \<open>
  The gaze branch of \<^verbatim>\<open>handleTrackingData\<close>, entered when \<^verbatim>\<open>data.gaze\<close> is truthy.
  \<open>now\<close> is the reading of \<^verbatim>\<open>Date.now()\<close> at the push.
\<close>

definition gazeBranch :: "int \<Rightarrow> json option \<Rightarrow> app_state \<Rightarrow> app_state result" where
  "gazeBranch now gaze s =
     (case getProp gaze ''GazeX'' of Inl e \<Rightarrow> Threw e s | Inr gazeX \<Rightarrow>
     (case getProp gaze ''GazeY'' of Inl e \<Rightarrow> Threw e s | Inr gazeY \<Rightarrow>
        let s1 = s\<lparr>gazeData := (gazeX, gazeY)\<rparr> in
        (case (gazeX, gazeY) of
           (Some (JNum gx), Some (JNum gy)) \<Rightarrow>
             Done (s1\<lparr>sessionData := (sessionData s1)
                    \<lparr>gazePoints := gazePoints (sessionData s1) @
                       [\<lparr>gaze_x = gx, gaze_y = gy, gaze_timestamp = now\<rparr>]\<rparr>\<rparr>)
         | _ \<Rightarrow> Threw TypeError s1)))"

text \<open>
  The emotion branch, entered when \<^verbatim>\<open>data.emotion\<close> is truthy. \<open>rnd\<close> is the value of
  \<^verbatim>\<open>Math.random()\<close>. Before the push it can throw three times: \<^verbatim>\<open>charAt\<close> on a label
  that is not a string, the assignment of the confidence to \<^verbatim>\<open>textContent\<close>, and
  \<^verbatim>\<open>updateEmotionBars\<close>.
\<close>

definition emotionBranch :: "int \<Rightarrow> real \<Rightarrow> json option \<Rightarrow> app_state \<Rightarrow> app_state result" where
  "emotionBranch now rnd em s =
     (case getProp em ''emotion'' of Inl e \<Rightarrow> Threw e s | Inr emo \<Rightarrow>
     (case getProp em ''emotion_scores'' of Inl e \<Rightarrow> Threw e s | Inr emotionScores \<Rightarrow>
     (case getProp em ''confidence'' of Inl e \<Rightarrow> Threw e s | Inr c \<Rightarrow>
        let confidence = (if truthy c then c else Some (JNum 0));
            s1 = s\<lparr>currentEmotions := emotionScores\<rparr> in
        (case emo of
           Some (JStr label) \<Rightarrow>
             if \<not> printable confidence then Threw TypeError s1
             else
               (case updateEmotionBars emotionScores of
                  Some e \<Rightarrow> Threw e s1
                | None \<Rightarrow>
                    let s2 = s1\<lparr>sessionData := (sessionData s1)
                               \<lparr>emotions := emotions (sessionData s1) @
                                  [\<lparr>emotion = label, scores = spread emotionScores,
                                    timestamp = now\<rparr>]\<rparr>\<rparr>
                    in Done (if rnd < 5 / 100
                             then addLogEntry (Detected label confidence) s2 else s2))
         | _ \<Rightarrow> Threw TypeError s1))))"

definition handleTrackingData ::
  "int \<Rightarrow> int \<Rightarrow> real \<Rightarrow> json option \<Rightarrow> app_state \<Rightarrow> app_state result" where
  "handleTrackingData t1 t2 rnd data s =
     (if \<not> isTracking s then Done s
      else
        andThen
          (case getProp data ''gaze'' of Inl e \<Rightarrow> Threw e s
           | Inr gaze \<Rightarrow> if truthy gaze then gazeBranch t1 gaze s else Done s)
          (\<lambda>s'. case getProp data ''emotion'' of Inl e \<Rightarrow> Threw e s'
           | Inr em \<Rightarrow> if truthy em then emotionBranch t2 rnd em s' else Done s'))"

text \<open>
  What \<^verbatim>\<open>JSON.parse(event.data)\<close> makes of a frame: a SyntaxError, or a value. The log
  line of a \<^verbatim>\<open>command_response\<close> is a template string of the command and the status,
  which throws before anything is logged when one of them does not convert.
\<close>

datatype event_data = NotJSON | Parsed json

definition onmessage ::
  "int \<Rightarrow> int \<Rightarrow> real \<Rightarrow> event_data \<Rightarrow> app_state \<Rightarrow> app_state result" where
  "onmessage t1 t2 rnd ev s =
     (case ev of
        NotJSON \<Rightarrow> Threw SyntaxError s
      | Parsed message \<Rightarrow>
          (case getProp (Some message) ''type'' of Inl e \<Rightarrow> Threw e s
           | Inr ty \<Rightarrow>
               if ty = Some (JStr ''tracking_data'') then
                 (case getProp (Some message) ''data'' of Inl e \<Rightarrow> Threw e s
                  | Inr d \<Rightarrow> handleTrackingData t1 t2 rnd d s)
               else if ty = Some (JStr ''command_response'') then
                 (case getProp (Some message) ''command'' of Inl e \<Rightarrow> Threw e s
                  | Inr c \<Rightarrow>
                 (case getProp (Some message) ''status'' of Inl e \<Rightarrow> Threw e s
                  | Inr st \<Rightarrow>
                      if printable c \<and> printable st
                      then Done (addLogEntry (ServerResponded c st) s)
                      else Threw TypeError s))
               else Done s))"

definition startTracking :: "int \<Rightarrow> app_state \<Rightarrow> app_state" where
  "startTracking now s =
     (if wsConnection s \<noteq> Some OPEN then
        addLogEntry (Text ''Cannot start: No connection to server.'') s
      else
        (addLogEntry (Text ''Starting tracking session...'') s)
          \<lparr>sessionData := \<lparr> startTime = Some now, emotions = [], gazePoints = [] \<rparr>,
           sent := sent s @ [start_tracking],
           isTracking := True,
           startBtn := True, stopBtn := False, calibrateBtn := False\<rparr>)"

definition stopTracking :: "app_state \<Rightarrow> app_state" where
  "stopTracking s =
     (if \<not> isTracking s then s
      else
        let s1 = addLogEntry (Text ''Stopping tracking session...'') s;
            s2 = (if wsConnection s1 = Some OPEN
                  then s1\<lparr>sent := sent s1 @ [stop_tracking]\<rparr> else s1);
            s3 = s2\<lparr>isTracking := False,
                    startBtn := False, stopBtn := True, calibrateBtn := True,
                    exportBtn := False\<rparr>
        in addLogEntry (Text ''Session stopped. Data can now be exported.'') s3)"

definition calibrateGaze :: "app_state \<Rightarrow> app_state" where
  "calibrateGaze s =
     (if \<not> isTracking s then s
      else
        let s1 = addLogEntry (Text ''Starting calibration process...'') s
        in if wsConnection s1 = Some OPEN
           then s1\<lparr>sent := sent s1 @ [calibrate]\<rparr> else s1)"

subsection \<open>Summary and export\<close>

text \<open>
  \<^verbatim>\<open>emotionCounts\<close> is a plain object used as a dictionary. JavaScript enumerates the own
  properties of an object with the array-index keys first, in ascending numeric order,
  then the other string keys in the order of their creation. An array index is the
  canonical decimal form of an integer below \<open>2\<^sup>3\<^sup>2 - 1\<close>.
\<close>

definition digitsValue :: "string \<Rightarrow> nat" where
  "digitsValue k = foldl (\<lambda>n c. 10 * n + (of_char c - 48)) 0 k"

definition arrayIndex :: "string \<Rightarrow> nat option" where
  "arrayIndex k =
     (if k \<noteq> [] \<and> list_all (\<lambda>c. c \<in> set ''0123456789'') k
         \<and> (k = ''0'' \<or> hd k \<noteq> CHR ''0'') \<and> digitsValue k < 4294967295
      then Some (digitsValue k) else None)"

fun insertIndex :: "nat \<Rightarrow> string \<Rightarrow> 'v \<Rightarrow> (string \<times> 'v) list \<Rightarrow> (string \<times> 'v) list" where
  "insertIndex i k v [] = [(k, v)]"
| "insertIndex i k v ((k', v') # ps) =
     (case arrayIndex k' of
        Some j \<Rightarrow> if j < i then (k', v') # insertIndex i k v ps else (k, v) # (k', v') # ps
      | None \<Rightarrow> (k, v) # (k', v') # ps)"

text \<open>
  Assignment \<^verbatim>\<open>obj[k] = v\<close> to an own data property: an existing property keeps its
  place, a new one takes its place in the enumeration order.
\<close>

definition setOwn :: "string \<Rightarrow> 'v \<Rightarrow> (string \<times> 'v) list \<Rightarrow> (string \<times> 'v) list" where
  "setOwn k v ps =
     (if map_of ps k \<noteq> None then map (\<lambda>(k', v'). if k' = k then (k', v) else (k', v')) ps
      else (case arrayIndex k of
              None \<Rightarrow> ps @ [(k, v)]
            | Some i \<Rightarrow> insertIndex i k v ps))"

text \<open>
  The members of \<^verbatim>\<open>Object.prototype\<close>, which a read \<^verbatim>\<open>emotionCounts[emotion]\<close> finds when
  the object has no own property of that name. All are functions, except the accessor
  \<^verbatim>\<open>__proto__\<close>, which reads as an object and ignores the assignment of a string.
\<close>

definition objectPrototypeNames :: "string list" where
  "objectPrototypeNames =
     [''constructor'', ''__defineGetter__'', ''__defineSetter__'', ''hasOwnProperty'',
      ''__lookupGetter__'', ''__lookupSetter__'', ''isPrototypeOf'',
      ''propertyIsEnumerable'', ''toString'', ''valueOf'', ''__proto__'',
      ''toLocaleString'']"

text \<open>
  One step of the \<^verbatim>\<open>forEach\<close> of \<^verbatim>\<open>generateSummary\<close>:
  \<^verbatim>\<open>emotionCounts[emotion] = (emotionCounts[emotion] || 0) + 1\<close>.
\<close>

definition countEmotion :: "string \<Rightarrow> (string \<times> count) list \<Rightarrow> (string \<times> count) list" where
  "countEmotion e cs =
     (case map_of cs e of
        Some (Count n) \<Rightarrow> setOwn e (Count (n + 1)) cs
      | Some NotNumeric \<Rightarrow> setOwn e NotNumeric cs
      | None \<Rightarrow>
          if e = ''__proto__'' then cs
          else if e \<in> set objectPrototypeNames then setOwn e NotNumeric cs
          else setOwn e (Count 1) cs)"

text \<open>
  The \<^verbatim>\<open>for ... in\<close> loop of \<^verbatim>\<open>generateSummary\<close> over the enumeration order, with the
  running \<^verbatim>\<open>primaryEmotion\<close> and \<^verbatim>\<open>maxCount\<close>. A string compared with a number by \<^verbatim>\<open>>\<close>
  is not greater.
\<close>

fun mostCommon :: "(string \<times> count) list \<Rightarrow> string \<Rightarrow> nat \<Rightarrow> string" where
  "mostCommon [] primary maxCount = primary"
| "mostCommon ((e, Count n) # rest) primary maxCount =
     (if n > maxCount then mostCommon rest e n else mostCommon rest primary maxCount)"
| "mostCommon ((e, NotNumeric) # rest) primary maxCount = mostCommon rest primary maxCount"

text \<open>\<open>now\<close> is the reading of \<^verbatim>\<open>Date.now()\<close>; \<^verbatim>\<open>now - null\<close> is \<open>now\<close>.\<close>

definition generateSummary :: "int \<Rightarrow> app_state \<Rightarrow> summary" where
  "generateSummary now s =
     (let es = emotions (sessionData s); gs = gazePoints (sessionData s) in
      if es = [] then
        \<lparr> primaryEmotion = ''none'', emotionCounts = [],
          totalEmotionSamples = None, totalGazeSamples = None, sessionDurationMs = None \<rparr>
      else
        let counts = foldl (\<lambda>cs entry. countEmotion (emotion entry) cs) [] es in
        \<lparr> primaryEmotion = mostCommon counts ''neutral'' 0,
          emotionCounts = counts,
          totalEmotionSamples = Some (length es),
          totalGazeSamples = Some (length gs),
          sessionDurationMs =
            Some (now - (case startTime (sessionData s) of None \<Rightarrow> 0 | Some t \<Rightarrow> t)) \<rparr>)"

text \<open>
  \<^verbatim>\<open>exportData\<close>. \<open>api\<close> says whether \<^verbatim>\<open>window.api\<close> exists, \<open>t\<close> is the instant of
  \<^verbatim>\<open>new Date()\<close> and \<open>t'\<close> the later reading of \<^verbatim>\<open>Date.now()\<close> in \<^verbatim>\<open>generateSummary\<close>.
\<close>

definition exportData :: "bool \<Rightarrow> int \<Rightarrow> int \<Rightarrow> app_state \<Rightarrow> app_state" where
  "exportData api t t' s =
     (if emotions (sessionData s) = [] \<and> gazePoints (sessionData s) = [] then
        addLogEntry (Text ''No data to export.'') s
      else
        let s1 = addLogEntry (Text ''Preparing data for export...'') s;
            exported =
              \<lparr> sessionId = startTime (sessionData s1),
                startTimeISO = (case startTime (sessionData s1) of None \<Rightarrow> 0 | Some t0 \<Rightarrow> t0),
                endTimeISO = t,
                exportedEmotions = emotions (sessionData s1),
                exportedGazePoints = gazePoints (sessionData s1),
                exportedSummary = generateSummary t' s1 \<rparr>
        in if api then
             addLogEntry (Text ''Data sent to be saved...'')
               (s1\<lparr>apiExports := apiExports s1 @ [exported]\<rparr>)
           else
             addLogEntry (Text ''Data exported successfully.'')
               (s1\<lparr>downloads := downloads s1 @ [exported]\<rparr>))"

subsection \<open>Frames in receipt order\<close>

text \<open>
  A received frame with the clock readings and the random value its handler sees.
  An exception thrown by one handler call is reported and the next frame is handled
  from the state the throw left.
\<close>

type_synonym frame = "int \<times> int \<times> real \<times> event_data"

fun receiveAll :: "frame list \<Rightarrow> app_state \<Rightarrow> app_state \<times> error list" where
  "receiveAll [] s = (s, [])"
| "receiveAll ((t1, t2, rnd, ev) # fs) s =
     (case onmessage t1 t2 rnd ev s of
        Done s' \<Rightarrow> receiveAll fs s'
      | Threw e s' \<Rightarrow> (fst (receiveAll fs s'), e # snd (receiveAll fs s')))"

section \<open>Process supervisor\<close>

text \<open>
  \<^verbatim>\<open>main.js\<close> keeps the worker in the module variable \<^verbatim>\<open>pythonProcess\<close>: \<^verbatim>\<open>null\<close> or the
  child process, whose \<^verbatim>\<open>pid\<close> is undefined when the launch failed. The model records
  each termination attempt the supervisor issues.
\<close>

datatype platform = win32 | darwin | other_platform

record child_process =
  pid :: "nat option"

datatype termination_attempt = Taskkill "nat option" | Kill "nat option"

record supervisor =
  pythonProcess :: "child_process option"
  terminations :: "termination_attempt list"

text \<open>The path segments joined to \<^verbatim>\<open>__dirname\<close>.\<close>

definition pythonExecutablePath :: "platform \<Rightarrow> string list" where
  "pythonExecutablePath p =
     (if p = win32 then [''python_dist'', ''emotion_tracker_backend.exe'']
      else if p = darwin then
        [''python_dist'', ''emotion_tracker_backend'', ''emotion_tracker_backend'']
      else [''python_dist'', ''emotion_tracker_backend''])"

text \<open>
  \<open>spawn\<close> stands for \<^verbatim>\<open>child_process.spawn\<close>: \<open>None\<close> when it throws, which the
  \<^verbatim>\<open>try\<close> block catches before the assignment.
\<close>

definition startPythonBackend ::
  "platform \<Rightarrow> (string list \<Rightarrow> child_process option) \<Rightarrow> supervisor \<Rightarrow> supervisor" where
  "startPythonBackend p spawn sv =
     (case spawn (pythonExecutablePath p) of
        None \<Rightarrow> sv
      | Some c \<Rightarrow> sv\<lparr>pythonProcess := Some c\<rparr>)"

text \<open>The \<^verbatim>\<open>close\<close> handler registered on the child.\<close>

definition onProcessClose :: "supervisor \<Rightarrow> supervisor" where
  "onProcessClose sv = sv\<lparr>pythonProcess := None\<rparr>"

definition stopPythonBackend :: "platform \<Rightarrow> supervisor \<Rightarrow> supervisor" where
  "stopPythonBackend p sv =
     (case pythonProcess sv of
        None \<Rightarrow> sv
      | Some c \<Rightarrow>
          if p = win32 then sv\<lparr>terminations := terminations sv @ [Taskkill (pid c)]\<rparr>
          else sv\<lparr>terminations := terminations sv @ [Kill (pid c)]\<rparr>)"

section \<open>Notions used to state the properties\<close>

text \<open>
  The payload sections of a frame, and the samples that a gaze section with two numbers
  and an emotion section with a string label stand for.
\<close>

definition sectionOf :: "string \<Rightarrow> event_data \<Rightarrow> json option" where
  "sectionOf k ev =
     (case ev of
        Parsed (JObj ps) \<Rightarrow>
          (case map_of ps ''data'' of Some (JObj ds) \<Rightarrow> map_of ds k | _ \<Rightarrow> None)
      | _ \<Rightarrow> None)"

fun gazeSample :: "frame \<Rightarrow> gaze_point option" where
  "gazeSample (t1, t2, rnd, ev) =
     (case sectionOf ''gaze'' ev of
        Some (JObj g) \<Rightarrow>
          (case (map_of g ''GazeX'', map_of g ''GazeY'') of
             (Some (JNum gx), Some (JNum gy)) \<Rightarrow>
               Some \<lparr>gaze_x = gx, gaze_y = gy, gaze_timestamp = t1\<rparr>
           | _ \<Rightarrow> None)
      | _ \<Rightarrow> None)"

fun emotionSample :: "frame \<Rightarrow> emotion_entry option" where
  "emotionSample (t1, t2, rnd, ev) =
     (case sectionOf ''emotion'' ev of
        Some (JObj em) \<Rightarrow>
          (case map_of em ''emotion'' of
             Some (JStr label) \<Rightarrow>
               Some \<lparr>emotion = label, scores = spread (map_of em ''emotion_scores''),
                     timestamp = t2\<rparr>
           | _ \<Rightarrow> None)
      | _ \<Rightarrow> None)"

text \<open>
  The sections of the wire protocol: a gaze section with the numbers \<^verbatim>\<open>GazeX\<close> and
  \<^verbatim>\<open>GazeY\<close>; an emotion section with a string \<^verbatim>\<open>emotion\<close>, an object \<^verbatim>\<open>emotion_scores\<close>
  of numbers, and a number \<^verbatim>\<open>confidence\<close> or none.
\<close>

fun isNumber :: "json \<Rightarrow> bool" where
  "isNumber (JNum n) = True"
| "isNumber v = False"

fun isString :: "json \<Rightarrow> bool" where
  "isString (JStr l) = True"
| "isString v = False"

definition hasNumber :: "(string \<times> json) list \<Rightarrow> string \<Rightarrow> bool" where
  "hasNumber ps k = (case map_of ps k of None \<Rightarrow> False | Some v \<Rightarrow> isNumber v)"

fun wireGaze :: "json \<Rightarrow> bool" where
  "wireGaze (JObj g) = (hasNumber g ''GazeX'' \<and> hasNumber g ''GazeY'')"
| "wireGaze v = False"

fun wireEmotion :: "json \<Rightarrow> bool" where
  "wireEmotion (JObj em) =
     ((case map_of em ''emotion'' of None \<Rightarrow> False | Some l \<Rightarrow> isString l)
      \<and> (case map_of em ''emotion_scores'' of
            Some (JObj sc) \<Rightarrow> list_all (\<lambda>(k, x). isNumber x) sc
          | _ \<Rightarrow> False)
      \<and> (case map_of em ''confidence'' of None \<Rightarrow> True | Some c \<Rightarrow> isNumber c))"
| "wireEmotion v = False"

text \<open>
  A \<^verbatim>\<open>tracking_data\<close> frame of the wire protocol: the payload is an object, and each of
  the two sections is absent or has the shape above.
\<close>

fun wireFrame :: "frame \<Rightarrow> bool" where
  "wireFrame (t1, t2, rnd, ev) =
     (case ev of
        Parsed (JObj ps) \<Rightarrow>
          map_of ps ''type'' = Some (JStr ''tracking_data'')
          \<and> (case map_of ps ''data'' of
                Some (JObj ds) \<Rightarrow>
                  (case map_of ds ''gaze'' of None \<Rightarrow> True | Some g \<Rightarrow> wireGaze g)
                  \<and> (case map_of ds ''emotion'' of None \<Rightarrow> True | Some em \<Rightarrow> wireEmotion em)
              | _ \<Rightarrow> False)
      | _ \<Rightarrow> False)"

fun gazePresent :: "frame \<Rightarrow> bool" where
  "gazePresent (t1, t2, rnd, ev) = (sectionOf ''gaze'' ev \<noteq> None)"

fun emotionPresent :: "frame \<Rightarrow> bool" where
  "emotionPresent (t1, t2, rnd, ev) = (sectionOf ''emotion'' ev \<noteq> None)"

text \<open>The second state differs from the first in the log at most.\<close>

definition onlyLogged :: "app_state \<Rightarrow> app_state \<Rightarrow> bool" where
  "onlyLogged s s' = (s'\<lparr>logContainer := logContainer s\<rparr> = s)"

text \<open>
  A label that is neither an array index nor the name of a member of
  \<^verbatim>\<open>Object.prototype\<close>: its count is a number and its place in \<^verbatim>\<open>emotionCounts\<close> is the
  place of its first occurrence.
\<close>

definition plainLabel :: "string \<Rightarrow> bool" where
  "plainLabel l = (arrayIndex l = None \<and> l \<notin> set objectPrototypeNames)"

text \<open>The labels of a list in the order of their first occurrence.\<close>

fun firsts :: "'a list \<Rightarrow> 'a list" where
  "firsts [] = []"
| "firsts (x # xs) = x # filter (\<lambda>y. y \<noteq> x) (firsts xs)"

subsection \<open>Example states and frames\<close>

text \<open>
  A controller whose socket has opened, and the session started on it at time 0; then
  frames built from a gaze section and an emotion section.
\<close>

definition connectedState :: app_state where
  "connectedState = onopen ((connectWebSocket (initialState True))\<lparr>wsConnection := Some OPEN\<rparr>)"

definition trackingState :: app_state where
  "trackingState = startTracking 0 connectedState"

definition trackingFrame :: "(string \<times> json) list \<Rightarrow> event_data" where
  "trackingFrame sections =
     Parsed (JObj [(''type'', JStr ''tracking_data''), (''data'', JObj sections)])"

definition gazeSection :: "real \<Rightarrow> real \<Rightarrow> string \<times> json" where
  "gazeSection gx gy = (''gaze'', JObj [(''GazeX'', JNum gx), (''GazeY'', JNum gy)])"

definition emotionSection :: "string \<Rightarrow> real \<Rightarrow> string \<times> json" where
  "emotionSection label c =
     (''emotion'', JObj [(''emotion'', JStr label),
                        (''emotion_scores'', JObj [(label, JNum 1)]),
                        (''confidence'', JNum c)])"

definition exampleFrames :: "frame list" where
  "exampleFrames =
     [(10, 11, 1/2, trackingFrame [gazeSection (1/2) (2/5)]),
      (20, 21, 0, trackingFrame [gazeSection 0 1, emotionSection ''happy'' 90]),
      (30, 31, 1, trackingFrame [])]"

text \<open>
  A \<^verbatim>\<open>tracking_data\<close> frame with a gaze section of two numbers and an emotion section
  whose label is the number 5.
\<close>

definition malformedFrame :: frame where
  "malformedFrame =
     (1, 2, 0, trackingFrame [gazeSection 0 1, (''emotion'', JObj [(''emotion'', JNum 5)])])"

text \<open>
  Frames that carry one emotion section each, and the states they lead to from a started
  session: a tie between two labels, a label that is an array index, and a session of
  one gaze sample that has been stopped.
\<close>

definition emotionFrames :: "string list \<Rightarrow> frame list" where
  "emotionFrames labels =
     map (\<lambda>(i, l). (int i, int i, 1, trackingFrame [emotionSection l 80])) (enumerate 1 labels)"

definition tieState :: app_state where
  "tieState =
     fst (receiveAll (emotionFrames [''happy'', ''sad'', ''sad'', ''happy'', ''sad'', ''happy''])
            trackingState)"

definition indexLabelState :: app_state where
  "indexLabelState = fst (receiveAll (emotionFrames [''b'', ''1'']) trackingState)"

definition gazeOnlySession :: app_state where
  "gazeOnlySession =
     stopTracking
       (fst (receiveAll [(10, 10, 1, trackingFrame [gazeSection (1/2) (2/5)])] trackingState))"

text \<open>
  The message type of a frame, as the handler reads it: none for a frame that is not
  JSON or whose value has no \<^verbatim>\<open>type\<close> property.
\<close>

definition discriminator :: "event_data \<Rightarrow> json option" where
  "discriminator ev =
     (case ev of
        NotJSON \<Rightarrow> None
      | Parsed m \<Rightarrow> (case getProp (Some m) ''type'' of Inl e \<Rightarrow> None | Inr ty \<Rightarrow> ty))"

text \<open>
  A session in which the socket has left the open state and the close event has not
  been dispatched yet.
\<close>

definition closingState :: app_state where
  "closingState = trackingState\<lparr>wsConnection := Some CLOSING\<rparr>"

text \<open>A worker started on a platform other than Windows, with process id 4242.\<close>

definition runningWorker :: supervisor where
  "runningWorker =
     startPythonBackend other_platform (\<lambda>path. Some \<lparr>pid = Some 4242\<rparr>)
       \<lparr>pythonProcess = None, terminations = []\<rparr>"

section \<open>Properties\<close>

subsection \<open>Frame handling\<close>

lemma addLogEntry_fields [simp]:
  "isTracking (addLogEntry e s) = isTracking s"
  "wsConnection (addLogEntry e s) = wsConnection s"
  "sessionData (addLogEntry e s) = sessionData s"
  "sent (addLogEntry e s) = sent s"
  "apiExports (addLogEntry e s) = apiExports s"
  "downloads (addLogEntry e s) = downloads s"
  "startBtn (addLogEntry e s) = startBtn s"
  "stopBtn (addLogEntry e s) = stopBtn s"
  "calibrateBtn (addLogEntry e s) = calibrateBtn s"
  "exportBtn (addLogEntry e s) = exportBtn s"
  "currentEmotions (addLogEntry e s) = currentEmotions s"
  "gazeData (addLogEntry e s) = gazeData s"
  by (simp_all add: addLogEntry_def Let_def)

lemma handleTrackingData_idle:
  "\<not> isTracking s \<Longrightarrow> handleTrackingData t1 t2 rnd d s = Done s"
  by (simp add: handleTrackingData_def)

lemma gazeBranch_isTracking:
  "isTracking (stateOf (gazeBranch t g s)) = isTracking s"
  by (simp add: gazeBranch_def Let_def split: sum.splits option.splits json.splits prod.splits)

lemma emotionBranch_isTracking:
  "isTracking (stateOf (emotionBranch t rnd g s)) = isTracking s"
  by (simp add: emotionBranch_def Let_def split: sum.splits option.splits json.splits)

lemma handleTrackingData_isTracking:
  "isTracking (stateOf (handleTrackingData t1 t2 rnd d s)) = isTracking s"
proof (cases "isTracking s")
  case False
  then show ?thesis by (simp add: handleTrackingData_idle)
next
  case True
  define r where "r = (case getProp d ''gaze'' of Inl e \<Rightarrow> Threw e s
           | Inr gaze \<Rightarrow> if truthy gaze then gazeBranch t1 gaze s else Done s)"
  have r: "isTracking (stateOf r) = isTracking s"
    by (simp add: r_def gazeBranch_isTracking split: sum.splits)
  have step: "isTracking (stateOf (case getProp d ''emotion'' of Inl e \<Rightarrow> Threw e s'
           | Inr em \<Rightarrow> if truthy em then emotionBranch t2 rnd em s' else Done s')) = isTracking s'" for s'
    by (simp add: emotionBranch_isTracking split: sum.splits)
  show ?thesis
    using True r step
    by (cases r) (simp_all add: handleTrackingData_def r_def [symmetric])
qed

lemma onmessage_isTracking:
  "isTracking (stateOf (onmessage t1 t2 rnd ev s)) = isTracking s"
  by (simp add: onmessage_def handleTrackingData_isTracking split: event_data.splits sum.splits)

lemma onmessage_idle:
  "\<not> isTracking s \<Longrightarrow> sessionData (stateOf (onmessage t1 t2 rnd ev s)) = sessionData s"
  by (simp add: onmessage_def handleTrackingData_idle split: event_data.splits sum.splits)

lemma receiveAll_idle:
  "\<not> isTracking s \<Longrightarrow>
     sessionData (fst (receiveAll fs s)) = sessionData s \<and> \<not> isTracking (fst (receiveAll fs s))"
proof (induction fs arbitrary: s)
  case Nil
  then show ?case by simp
next
  case (Cons f fs)
  obtain t1 t2 rnd ev where f: "f = (t1, t2, rnd, ev)" by (cases f) auto
  let ?r = "onmessage t1 t2 rnd ev s"
  have a: "\<not> isTracking (stateOf ?r)" using Cons.prems by (simp add: onmessage_isTracking)
  have b: "sessionData (stateOf ?r) = sessionData s" using Cons.prems by (rule onmessage_idle)
  from Cons.IH [OF a] b show ?case
    by (cases ?r) (simp_all add: f)
qed

lemma wireFrame_shape:
  assumes "wireFrame (t1, t2, rnd, ev)"
  obtains ps ds where "ev = Parsed (JObj ps)"
    and "map_of ps ''type'' = Some (JStr ''tracking_data'')"
    and "map_of ps ''data'' = Some (JObj ds)"
    and "case map_of ds ''gaze'' of None \<Rightarrow> True | Some g \<Rightarrow> wireGaze g"
    and "case map_of ds ''emotion'' of None \<Rightarrow> True | Some em \<Rightarrow> wireEmotion em"
proof -
  from assms obtain m where m: "ev = Parsed m" by (cases ev) auto
  with assms obtain ps where ps: "m = JObj ps" by (cases m) auto
  from assms m ps have ty: "map_of ps ''type'' = Some (JStr ''tracking_data'')" by simp
  from assms m ps obtain d where d: "map_of ps ''data'' = Some d"
    by (cases "map_of ps ''data''") auto
  with assms m ps obtain ds where ds: "d = JObj ds" by (cases d) auto
  from assms m ps d ds
  have "case map_of ds ''gaze'' of None \<Rightarrow> True | Some g \<Rightarrow> wireGaze g"
    and "case map_of ds ''emotion'' of None \<Rightarrow> True | Some em \<Rightarrow> wireEmotion em"
    by simp_all
  with m ps ty d ds that show ?thesis by blast
qed

lemma isNumber_JNum: "isNumber v \<Longrightarrow> \<exists>n. v = JNum n"
  by (cases v) simp_all

lemma isString_JStr: "isString v \<Longrightarrow> \<exists>l. v = JStr l"
  by (cases v) simp_all

lemma hasNumber_JNum: "hasNumber ps k \<Longrightarrow> \<exists>n. map_of ps k = Some (JNum n)"
  by (cases "map_of ps k") (auto simp: hasNumber_def dest: isNumber_JNum)

lemma wireGaze_numbers:
  assumes "wireGaze v"
  obtains g gx gy where "v = JObj g" and "map_of g ''GazeX'' = Some (JNum gx)"
    and "map_of g ''GazeY'' = Some (JNum gy)"
proof -
  from assms obtain g where g: "v = JObj g" by (cases v) auto
  with assms have "hasNumber g ''GazeX''" and "hasNumber g ''GazeY''" by simp_all
  then obtain gx gy where "map_of g ''GazeX'' = Some (JNum gx)"
    and "map_of g ''GazeY'' = Some (JNum gy)"
    by (blast dest: hasNumber_JNum)
  with g that show ?thesis by blast
qed

lemma isNumber_convertible: "isNumber v \<Longrightarrow> convertible v"
  by (cases v) simp_all

lemma numbers_update_bars:
  "list_all (\<lambda>(k, x). isNumber x) sc \<Longrightarrow> updateEmotionBars (Some (JObj sc)) = None"
  by (auto simp: updateEmotionBars_def list_all_iff isNumber_convertible)

lemma wireEmotion_decodes:
  assumes "wireEmotion v"
  obtains em label where "v = JObj em" and "map_of em ''emotion'' = Some (JStr label)"
    and "printable (if truthy (map_of em ''confidence'') then map_of em ''confidence''
                    else Some (JNum 0))"
    and "updateEmotionBars (map_of em ''emotion_scores'') = None"
proof -
  from assms obtain em where v: "v = JObj em" by (cases v) auto
  with assms have e: "case map_of em ''emotion'' of None \<Rightarrow> False | Some l \<Rightarrow> isString l"
    and s: "case map_of em ''emotion_scores'' of
            Some (JObj sc) \<Rightarrow> list_all (\<lambda>(k, x). isNumber x) sc | _ \<Rightarrow> False"
    and c: "case map_of em ''confidence'' of None \<Rightarrow> True | Some c \<Rightarrow> isNumber c"
    by simp_all
  from e obtain label where l: "map_of em ''emotion'' = Some (JStr label)"
    by (cases "map_of em ''emotion''") (auto dest: isString_JStr)
  from s obtain x where x: "map_of em ''emotion_scores'' = Some x"
    by (cases "map_of em ''emotion_scores''") auto
  with s obtain sc where "x = JObj sc" and "list_all (\<lambda>(k, x). isNumber x) sc"
    by (cases x) auto
  with x have u: "updateEmotionBars (map_of em ''emotion_scores'') = None"
    by (simp add: numbers_update_bars)
  have p: "printable (if truthy (map_of em ''confidence'') then map_of em ''confidence''
                    else Some (JNum 0))"
  proof (cases "map_of em ''confidence''")
    case None
    then show ?thesis by simp
  next
    case (Some y)
    with c have "convertible y" by (simp add: isNumber_convertible)
    with Some show ?thesis by simp
  qed
  from v l p u that show ?thesis by blast
qed

lemma gazeBranch_sample:
  assumes "map_of g ''GazeX'' = Some (JNum gx)" and "map_of g ''GazeY'' = Some (JNum gy)"
  shows "gazeBranch t (Some (JObj g)) s =
           Done (s\<lparr>gazeData := (Some (JNum gx), Some (JNum gy)),
                   sessionData := (sessionData s)
                     \<lparr>gazePoints := gazePoints (sessionData s) @
                        [\<lparr>gaze_x = gx, gaze_y = gy, gaze_timestamp = t\<rparr>]\<rparr>\<rparr>)"
  using assms by (simp add: gazeBranch_def)

lemma emotionBranch_sample:
  assumes "map_of em ''emotion'' = Some (JStr label)"
    and "printable (if truthy (map_of em ''confidence'') then map_of em ''confidence''
                    else Some (JNum 0))"
    and "updateEmotionBars (map_of em ''emotion_scores'') = None"
  shows "\<exists>s'. emotionBranch t rnd (Some (JObj em)) s = Done s'
           \<and> isTracking s' = isTracking s
           \<and> gazePoints (sessionData s') = gazePoints (sessionData s)
           \<and> emotions (sessionData s') = emotions (sessionData s) @
                [\<lparr>emotion = label, scores = spread (map_of em ''emotion_scores''),
                  timestamp = t\<rparr>]"
  using assms by (simp add: emotionBranch_def Let_def)

lemma onmessage_wire:
  assumes tr: "isTracking s" and wf: "wireFrame (t1, t2, rnd, ev)"
  shows "\<exists>s'. onmessage t1 t2 rnd ev s = Done s' \<and> isTracking s'
           \<and> gazePoints (sessionData s') = gazePoints (sessionData s) @
                (case gazeSample (t1, t2, rnd, ev) of None \<Rightarrow> [] | Some g \<Rightarrow> [g])
           \<and> emotions (sessionData s') = emotions (sessionData s) @
                (case emotionSample (t1, t2, rnd, ev) of None \<Rightarrow> [] | Some e \<Rightarrow> [e])"
proof -
  from wf obtain ps ds where ev: "ev = Parsed (JObj ps)"
    and ty: "map_of ps ''type'' = Some (JStr ''tracking_data'')"
    and da: "map_of ps ''data'' = Some (JObj ds)"
    and wg: "case map_of ds ''gaze'' of None \<Rightarrow> True | Some g \<Rightarrow> wireGaze g"
    and we: "case map_of ds ''emotion'' of None \<Rightarrow> True | Some em \<Rightarrow> wireEmotion em"
    by (rule wireFrame_shape)
  have sec: "sectionOf k ev = map_of ds k" for k
    by (simp add: sectionOf_def ev da)
  have om: "onmessage t1 t2 rnd ev s = handleTrackingData t1 t2 rnd (Some (JObj ds)) s"
    by (simp add: onmessage_def ev ty da)
  \<comment> \<open>the gaze branch\<close>
  have "\<exists>s1. (case getProp (Some (JObj ds)) ''gaze'' of Inl e \<Rightarrow> Threw e s
           | Inr gaze \<Rightarrow> if truthy gaze then gazeBranch t1 gaze s else Done s) = Done s1
         \<and> isTracking s1
         \<and> emotions (sessionData s1) = emotions (sessionData s)
         \<and> gazePoints (sessionData s1) = gazePoints (sessionData s) @
                (case gazeSample (t1, t2, rnd, ev) of None \<Rightarrow> [] | Some g \<Rightarrow> [g])"
  proof (cases "map_of ds ''gaze''")
    case None
    then show ?thesis using tr by (simp add: sec)
  next
    case (Some v)
    with wg have "wireGaze v" by simp
    then obtain g gx gy where "v = JObj g" "map_of g ''GazeX'' = Some (JNum gx)"
      "map_of g ''GazeY'' = Some (JNum gy)"
      by (rule wireGaze_numbers)
    then show ?thesis using tr Some by (simp add: sec gazeBranch_sample)
  qed
  then obtain s1 where g1: "(case getProp (Some (JObj ds)) ''gaze'' of Inl e \<Rightarrow> Threw e s
           | Inr gaze \<Rightarrow> if truthy gaze then gazeBranch t1 gaze s else Done s) = Done s1"
    and g2: "isTracking s1" and g3: "emotions (sessionData s1) = emotions (sessionData s)"
    and g4: "gazePoints (sessionData s1) = gazePoints (sessionData s) @
                (case gazeSample (t1, t2, rnd, ev) of None \<Rightarrow> [] | Some g \<Rightarrow> [g])"
    by blast
  \<comment> \<open>the emotion branch\<close>
  have "\<exists>s2. (case getProp (Some (JObj ds)) ''emotion'' of Inl e \<Rightarrow> Threw e s1
           | Inr em \<Rightarrow> if truthy em then emotionBranch t2 rnd em s1 else Done s1) = Done s2
         \<and> isTracking s2
         \<and> gazePoints (sessionData s2) = gazePoints (sessionData s1)
         \<and> emotions (sessionData s2) = emotions (sessionData s1) @
                (case emotionSample (t1, t2, rnd, ev) of None \<Rightarrow> [] | Some e \<Rightarrow> [e])"
  proof (cases "map_of ds ''emotion''")
    case None
    then show ?thesis using g2 by (simp add: sec)
  next
    case (Some v)
    with we have "wireEmotion v" by simp
    then obtain em label where v: "v = JObj em" and l: "map_of em ''emotion'' = Some (JStr label)"
      and c: "printable (if truthy (map_of em ''confidence'') then map_of em ''confidence''
                    else Some (JNum 0))"
      and u: "updateEmotionBars (map_of em ''emotion_scores'') = None"
      by (rule wireEmotion_decodes)
    from emotionBranch_sample [OF l c u, of t2 rnd s1] show ?thesis
      using g2 Some v l by (auto simp: sec)
  qed
  then obtain s2 where e1: "(case getProp (Some (JObj ds)) ''emotion'' of Inl e \<Rightarrow> Threw e s1
           | Inr em \<Rightarrow> if truthy em then emotionBranch t2 rnd em s1 else Done s1) = Done s2"
    and e2: "isTracking s2" and e3: "gazePoints (sessionData s2) = gazePoints (sessionData s1)"
    and e4: "emotions (sessionData s2) = emotions (sessionData s1) @
                (case emotionSample (t1, t2, rnd, ev) of None \<Rightarrow> [] | Some e \<Rightarrow> [e])"
    by blast
  have "handleTrackingData t1 t2 rnd (Some (JObj ds)) s = Done s2"
    using tr g1 e1 by (simp add: handleTrackingData_def)
  with om e2 e3 e4 g3 g4 show ?thesis by simp
qed

lemma wireFrame_gazePresent:
  assumes "wireFrame f"
  shows "(gazeSample f \<noteq> None) = gazePresent f"
proof -
  obtain t1 t2 rnd ev where f: "f = (t1, t2, rnd, ev)" by (cases f) auto
  from assms obtain ps ds where ev: "ev = Parsed (JObj ps)"
    and da: "map_of ps ''data'' = Some (JObj ds)"
    and wg: "case map_of ds ''gaze'' of None \<Rightarrow> True | Some g \<Rightarrow> wireGaze g"
    unfolding f by (rule wireFrame_shape)
  have sec: "sectionOf ''gaze'' ev = map_of ds ''gaze''"
    by (simp add: sectionOf_def ev da)
  show ?thesis
  proof (cases "map_of ds ''gaze''")
    case None
    then show ?thesis by (simp add: f sec)
  next
    case (Some v)
    with wg have "wireGaze v" by simp
    then obtain g gx gy where "v = JObj g" "map_of g ''GazeX'' = Some (JNum gx)"
      "map_of g ''GazeY'' = Some (JNum gy)"
      by (rule wireGaze_numbers)
    with Some show ?thesis by (simp add: f sec)
  qed
qed

lemma wireFrame_emotionPresent:
  assumes "wireFrame f"
  shows "(emotionSample f \<noteq> None) = emotionPresent f"
proof -
  obtain t1 t2 rnd ev where f: "f = (t1, t2, rnd, ev)" by (cases f) auto
  from assms obtain ps ds where ev: "ev = Parsed (JObj ps)"
    and da: "map_of ps ''data'' = Some (JObj ds)"
    and we: "case map_of ds ''emotion'' of None \<Rightarrow> True | Some em \<Rightarrow> wireEmotion em"
    unfolding f by (rule wireFrame_shape)
  have sec: "sectionOf ''emotion'' ev = map_of ds ''emotion''"
    by (simp add: sectionOf_def ev da)
  show ?thesis
  proof (cases "map_of ds ''emotion''")
    case None
    then show ?thesis by (simp add: f sec)
  next
    case (Some v)
    with we have "wireEmotion v" by simp
    then obtain em label where "v = JObj em" "map_of em ''emotion'' = Some (JStr label)"
      by (rule wireEmotion_decodes)
    with Some show ?thesis by (simp add: f sec)
  qed
qed

lemma length_map_filter_cong:
  "\<forall>x\<in>set xs. (f x \<noteq> None) = P x \<Longrightarrow> length (List.map_filter f xs) = length (filter P xs)"
  by (induction xs) (auto simp: split: option.splits)

lemma isTracking_trackingState: "isTracking trackingState"
  by (simp add: trackingState_def startTracking_def connectedState_def onopen_def
      connectWebSocket_def)

text \<open>
  C5, amended. While the controller is tracking, a sequence of \<^verbatim>\<open>tracking_data\<close> frames
  that have the shape of the wire protocol is handled without an exception, the
  recorder's gaze points and emotion entries are the earlier ones followed by the samples
  of the frames in receipt order, and their number grows by the number of present gaze
  sections plus the number of present emotion sections.
\<close>

theorem recorder_stores_present_sections:
  assumes "isTracking s" and "\<forall>f\<in>set fs. wireFrame f"
  shows "snd (receiveAll fs s) = []
       \<and> gazePoints (sessionData (fst (receiveAll fs s))) =
           gazePoints (sessionData s) @ List.map_filter gazeSample fs
       \<and> emotions (sessionData (fst (receiveAll fs s))) =
           emotions (sessionData s) @ List.map_filter emotionSample fs
       \<and> length (gazePoints (sessionData (fst (receiveAll fs s))))
           + length (emotions (sessionData (fst (receiveAll fs s)))) =
         length (gazePoints (sessionData s)) + length (emotions (sessionData s))
           + length (filter gazePresent fs) + length (filter emotionPresent fs)"
proof -
  have run: "snd (receiveAll fs s) = []
       \<and> gazePoints (sessionData (fst (receiveAll fs s))) =
           gazePoints (sessionData s) @ List.map_filter gazeSample fs
       \<and> emotions (sessionData (fst (receiveAll fs s))) =
           emotions (sessionData s) @ List.map_filter emotionSample fs"
    using assms
  proof (induction fs arbitrary: s)
    case Nil
    then show ?case by simp
  next
    case (Cons f fs)
    obtain t1 t2 rnd ev where f: "f = (t1, t2, rnd, ev)" by (cases f) auto
    from Cons.prems have "wireFrame (t1, t2, rnd, ev)" by (simp add: f)
    from onmessage_wire [OF Cons.prems(1) this]
    obtain s' where om: "onmessage t1 t2 rnd ev s = Done s'" and tr: "isTracking s'"
      and g: "gazePoints (sessionData s') = gazePoints (sessionData s) @
                (case gazeSample f of None \<Rightarrow> [] | Some g \<Rightarrow> [g])"
      and e: "emotions (sessionData s') = emotions (sessionData s) @
                (case emotionSample f of None \<Rightarrow> [] | Some e \<Rightarrow> [e])"
      unfolding f by blast
    from Cons.prems have "\<forall>f\<in>set fs. wireFrame f" by simp
    from Cons.IH [OF tr this] om g e show ?case
      by (simp add: f split: option.splits)
  qed
  have "length (List.map_filter gazeSample fs) = length (filter gazePresent fs)"
    by (rule length_map_filter_cong) (use assms(2) wireFrame_gazePresent in blast)
  moreover have "length (List.map_filter emotionSample fs) = length (filter emotionPresent fs)"
    by (rule length_map_filter_cong) (use assms(2) wireFrame_emotionPresent in blast)
  ultimately show ?thesis using run by simp
qed

lemma exampleFrames_wire: "\<forall>f\<in>set exampleFrames. wireFrame f"
  by (simp add: exampleFrames_def trackingFrame_def gazeSection_def emotionSection_def
      hasNumber_def)

text \<open>
  C5, witness. Three frames received while tracking: two gaze samples and one emotion
  sample.
\<close>

theorem recorder_stores_present_sections_witness:
  "isTracking trackingState \<and> list_all wireFrame exampleFrames
   \<and> snd (receiveAll exampleFrames trackingState) = []
   \<and> gazePoints (sessionData (fst (receiveAll exampleFrames trackingState))) =
       [\<lparr>gaze_x = 1/2, gaze_y = 2/5, gaze_timestamp = 10\<rparr>,
        \<lparr>gaze_x = 0, gaze_y = 1, gaze_timestamp = 20\<rparr>]
   \<and> emotions (sessionData (fst (receiveAll exampleFrames trackingState))) =
       [\<lparr>emotion = ''happy'', scores = [(''happy'', JNum 1)], timestamp = 21\<rparr>]"
proof -
  have g: "gazePoints (sessionData trackingState) = []"
    and e: "emotions (sessionData trackingState) = []"
    by (simp_all add: trackingState_def startTracking_def connectedState_def onopen_def
      connectWebSocket_def)
  have gs: "List.map_filter gazeSample exampleFrames =
       [\<lparr>gaze_x = 1/2, gaze_y = 2/5, gaze_timestamp = 10\<rparr>,
        \<lparr>gaze_x = 0, gaze_y = 1, gaze_timestamp = 20\<rparr>]"
    by (simp add: exampleFrames_def trackingFrame_def gazeSection_def emotionSection_def
      sectionOf_def)
  have es: "List.map_filter emotionSample exampleFrames =
       [\<lparr>emotion = ''happy'', scores = [(''happy'', JNum 1)], timestamp = 21\<rparr>]"
    by (simp add: exampleFrames_def trackingFrame_def gazeSection_def emotionSection_def
      sectionOf_def)
  show ?thesis
    using recorder_stores_present_sections [OF isTracking_trackingState exampleFrames_wire]
      isTracking_trackingState exampleFrames_wire
    by (simp add: g e gs es list_all_iff)
qed

text \<open>
  C5 as stated fails. One \<^verbatim>\<open>tracking_data\<close> frame received while tracking, with a gaze
  section and an emotion section present: \<^verbatim>\<open>charAt\<close> throws on the label, and one sample
  is stored for two present sections.
\<close>

theorem malformed_frame_stores_one_of_two:
  "isTracking trackingState
   \<and> length (filter gazePresent [malformedFrame])
       + length (filter emotionPresent [malformedFrame]) = 2
   \<and> snd (receiveAll [malformedFrame] trackingState) = [TypeError]
   \<and> gazePoints (sessionData (fst (receiveAll [malformedFrame] trackingState))) =
       [\<lparr>gaze_x = 0, gaze_y = 1, gaze_timestamp = 1\<rparr>]
   \<and> emotions (sessionData (fst (receiveAll [malformedFrame] trackingState))) = []"
  by (simp add: malformedFrame_def sectionOf_def trackingState_def startTracking_def
      connectedState_def onopen_def connectWebSocket_def initialState_def addLogEntry_def
      trackingFrame_def gazeSection_def onmessage_def handleTrackingData_def gazeBranch_def
      emotionBranch_def)

text \<open>
  C6. Outside tracking, whatever frames arrive, the recorder's gaze and emotion sequences
  stay as they are.
\<close>

theorem no_recording_outside_tracking:
  "\<not> isTracking s \<Longrightarrow>
     gazePoints (sessionData (fst (receiveAll fs s))) = gazePoints (sessionData s)
     \<and> emotions (sessionData (fst (receiveAll fs s))) = emotions (sessionData s)"
  by (simp add: receiveAll_idle)

text \<open>C6, witness. The same three frames received before a session starts record nothing.\<close>

theorem no_recording_outside_tracking_witness:
  "\<not> isTracking connectedState
   \<and> gazePoints (sessionData (fst (receiveAll exampleFrames connectedState))) = []
   \<and> emotions (sessionData (fst (receiveAll exampleFrames connectedState))) = []"
proof -
  have h: "\<not> isTracking connectedState"
    by (simp add: connectedState_def onopen_def connectWebSocket_def initialState_def)
  have "sessionData connectedState = \<lparr> startTime = None, emotions = [], gazePoints = [] \<rparr>"
    by (simp add: connectedState_def onopen_def connectWebSocket_def initialState_def)
  then show ?thesis
    using no_recording_outside_tracking [OF h, of exampleFrames] h by simp
qed

subsection \<open>User commands\<close>

text \<open>
  C10. Outside tracking, the stop command changes nothing: no message is written, the
  session data and the buttons are as before.
\<close>

theorem stop_outside_tracking_noop:
  "\<not> isTracking s \<Longrightarrow> stopTracking s = s"
  by (simp add: stopTracking_def)

text \<open>C10, witness. Stop on a connected controller that never started a session.\<close>

theorem stop_outside_tracking_noop_witness:
  "\<not> isTracking connectedState \<and> stopTracking connectedState = connectedState"
proof -
  have h: "\<not> isTracking connectedState"
    by (simp add: connectedState_def onopen_def connectWebSocket_def initialState_def)
  from stop_outside_tracking_noop [OF h] h show ?thesis by simp
qed

subsection \<open>Summary and export\<close>

lemma firsts_snoc:
  "firsts (xs @ [e]) = (if e \<in> set xs then firsts xs else firsts xs @ [e])"
  by (induction xs) auto

lemma set_firsts [simp]: "set (firsts xs) = set xs"
  by (induction xs) auto

lemma distinct_firsts [simp]: "distinct (firsts xs)"
  by (induction xs) auto

lemma firsts_split:
  "p \<notin> set pre \<Longrightarrow> \<exists>rest. firsts (pre @ p # post) = firsts pre @ p # rest"
  by (induction pre) auto

lemma map_of_tabulate:
  "map_of (map (\<lambda>l. (l, f l)) ks) e = (if e \<in> set ks then Some (f e) else None)"
  by (induction ks) auto

lemma countEmotion_seen:
  assumes "e \<in> set ks"
  shows "countEmotion e (map (\<lambda>l. (l, Count (c l))) ks) =
           map (\<lambda>l. (l, Count (if l = e then c l + 1 else c l))) ks"
  using assms by (simp add: countEmotion_def setOwn_def map_of_tabulate)

lemma countEmotion_new:
  assumes "e \<notin> set ks" and "plainLabel e"
  shows "countEmotion e (map (\<lambda>l. (l, Count (c l))) ks) =
           map (\<lambda>l. (l, Count (c l))) ks @ [(e, Count 1)]"
proof -
  from assms(2) have "e \<noteq> ''__proto__''"
    by (auto simp: plainLabel_def objectPrototypeNames_def)
  with assms show ?thesis
    by (simp add: countEmotion_def setOwn_def map_of_tabulate plainLabel_def)
qed

lemma counting_plain:
  assumes "list_all plainLabel ls"
  shows "foldl (\<lambda>cs e. countEmotion e cs) [] ls =
           map (\<lambda>l. (l, Count (count_list ls l))) (firsts ls)"
  using assms
proof (induction ls rule: rev_induct)
  case Nil
  then show ?case by simp
next
  case (snoc e xs)
  then have IH: "foldl (\<lambda>cs e. countEmotion e cs) [] xs =
           map (\<lambda>l. (l, Count (count_list xs l))) (firsts xs)"
    and pe: "plainLabel e" by simp_all
  show ?case
  proof (cases "e \<in> set xs")
    case True
    then show ?thesis
      by (simp add: IH firsts_snoc countEmotion_seen)
  next
    case False
    then show ?thesis
      using pe by (auto simp: IH firsts_snoc countEmotion_new)
  qed
qed

lemma mostCommon_tabulate:
  "mostCommon (map (\<lambda>l. (l, Count (c l))) ks) p0 m0 = p \<Longrightarrow>
     (p = p0 \<and> (\<forall>l\<in>set ks. c l \<le> m0))
     \<or> (\<exists>pre post. ks = pre @ p # post \<and> m0 < c p
           \<and> (\<forall>l\<in>set pre. c l < c p) \<and> (\<forall>l\<in>set post. c l \<le> c p))"
proof (induction ks arbitrary: p0 m0)
  case Nil
  then show ?case by simp
next
  case (Cons k ks)
  show ?case
  proof (cases "m0 < c k")
    case True
    with Cons.prems have "mostCommon (map (\<lambda>l. (l, Count (c l))) ks) k (c k) = p" by simp
    from Cons.IH [OF this] show ?thesis
    proof
      assume "p = k \<and> (\<forall>l\<in>set ks. c l \<le> c k)"
      with True have "k # ks = [] @ p # ks \<and> m0 < c p
           \<and> (\<forall>l\<in>set []. c l < c p) \<and> (\<forall>l\<in>set ks. c l \<le> c p)" by simp
      then show ?thesis by blast
    next
      assume "\<exists>pre post. ks = pre @ p # post \<and> c k < c p
           \<and> (\<forall>l\<in>set pre. c l < c p) \<and> (\<forall>l\<in>set post. c l \<le> c p)"
      then obtain pre post where "ks = pre @ p # post" "c k < c p"
        "\<forall>l\<in>set pre. c l < c p" "\<forall>l\<in>set post. c l \<le> c p" by blast
      with True have "k # ks = (k # pre) @ p # post \<and> m0 < c p
           \<and> (\<forall>l\<in>set (k # pre). c l < c p) \<and> (\<forall>l\<in>set post. c l \<le> c p)" by simp
      then show ?thesis by blast
    qed
  next
    case False
    with Cons.prems have "mostCommon (map (\<lambda>l. (l, Count (c l))) ks) p0 m0 = p" by simp
    from Cons.IH [OF this] show ?thesis
    proof
      assume "p = p0 \<and> (\<forall>l\<in>set ks. c l \<le> m0)"
      with False show ?thesis by simp
    next
      assume "\<exists>pre post. ks = pre @ p # post \<and> m0 < c p
           \<and> (\<forall>l\<in>set pre. c l < c p) \<and> (\<forall>l\<in>set post. c l \<le> c p)"
      then obtain pre post where "ks = pre @ p # post" "m0 < c p"
        "\<forall>l\<in>set pre. c l < c p" "\<forall>l\<in>set post. c l \<le> c p" by blast
      with False have "k # ks = (k # pre) @ p # post \<and> m0 < c p
           \<and> (\<forall>l\<in>set (k # pre). c l < c p) \<and> (\<forall>l\<in>set post. c l \<le> c p)" by simp
      then show ?thesis by blast
    qed
  qed
qed

lemma first_seen_most_common:
  assumes ne: "ls \<noteq> []" and plain: "list_all plainLabel ls"
  defines "p \<equiv> mostCommon (foldl (\<lambda>cs e. countEmotion e cs) [] ls) ''neutral'' 0"
  shows "\<exists>pre post. ls = pre @ p # post \<and> p \<notin> set pre
           \<and> (\<forall>l\<in>set pre. count_list ls l < count_list ls p)
           \<and> (\<forall>l\<in>set ls. count_list ls l \<le> count_list ls p)"
proof -
  let ?c = "count_list ls"
  have "mostCommon (map (\<lambda>l. (l, Count (?c l))) (firsts ls)) ''neutral'' 0 = p"
    by (simp add: p_def counting_plain [OF plain])
  from mostCommon_tabulate [OF this]
  have "\<exists>kpre kpost. firsts ls = kpre @ p # kpost \<and> 0 < ?c p
           \<and> (\<forall>l\<in>set kpre. ?c l < ?c p) \<and> (\<forall>l\<in>set kpost. ?c l \<le> ?c p)"
  proof
    assume a: "p = ''neutral'' \<and> (\<forall>l\<in>set (firsts ls). ?c l \<le> 0)"
    from ne obtain l where "l \<in> set ls" by (cases ls) auto
    with a have "?c l = 0" by simp
    with \<open>l \<in> set ls\<close> show ?thesis by (simp add: count_list_0_iff)
  qed
  then obtain kpre kpost where k: "firsts ls = kpre @ p # kpost"
    and lt: "\<forall>l\<in>set kpre. ?c l < ?c p" and le: "\<forall>l\<in>set kpost. ?c l \<le> ?c p"
    by blast
  from k have "p \<in> set (firsts ls)" by simp
  then have "p \<in> set ls" by simp
  from split_list_first [OF this] obtain pre post
    where ls: "ls = pre @ p # post" and np: "p \<notin> set pre" by blast
  from firsts_split [OF np] obtain rest where f: "firsts ls = firsts pre @ p # rest"
    unfolding ls by blast
  have "distinct (kpre @ p # kpost)" using distinct_firsts [of ls] by (simp only: k)
  then have "p \<notin> set kpre" and "p \<notin> set kpost" by simp_all
  moreover have "kpre @ p # kpost = firsts pre @ p # rest" using k f by simp
  ultimately have "kpre = firsts pre"
    by (simp add: append_Cons_eq_iff)
  with lt have "\<forall>l\<in>set pre. ?c l < ?c p" by simp
  moreover have "\<forall>l\<in>set ls. ?c l \<le> ?c p"
  proof
    fix l assume "l \<in> set ls"
    then have "l \<in> set (kpre @ p # kpost)" using k set_firsts [of ls] by simp
    with lt le show "?c l \<le> ?c p" by (auto intro: less_imp_le)
  qed
  ultimately show ?thesis using ls np by blast
qed

lemmas example_defs =
  trackingState_def startTracking_def connectedState_def onopen_def connectWebSocket_def
  initialState_def addLogEntry_def trackingFrame_def gazeSection_def emotionSection_def
  emotionFrames_def onmessage_def handleTrackingData_def gazeBranch_def emotionBranch_def
  updateEmotionBars_def

lemma tieState_labels:
  "map emotion (emotions (sessionData tieState)) =
     [''happy'', ''sad'', ''sad'', ''happy'', ''sad'', ''happy'']"
  by (simp add: tieState_def example_defs)

lemma indexLabelState_labels:
  "map emotion (emotions (sessionData indexLabelState)) = [''b'', ''1'']"
  by (simp add: indexLabelState_def example_defs)

lemma generateSummary_primary:
  "primaryEmotion (generateSummary now s) =
     (if emotions (sessionData s) = [] then ''none''
      else mostCommon (foldl (\<lambda>cs e. countEmotion e cs) [] (map emotion (emotions (sessionData s))))
             ''neutral'' 0)"
  by (simp add: generateSummary_def Let_def foldl_map)

lemma plainLabel_examples: "plainLabel ''happy''" "plainLabel ''sad''" "plainLabel ''b''"
  by (simp_all add: plainLabel_def arrayIndex_def objectPrototypeNames_def)

text \<open>
  C2, amended. With no emotion entry recorded, \<open>primaryEmotion\<close> is \<^verbatim>\<open>none\<close>. With at
  least one entry, and labels that are neither array indices nor names of members of
  \<^verbatim>\<open>Object.prototype\<close>, it is a label of highest count, and every label seen before its
  first occurrence has a strictly smaller count: among the labels of highest count the
  first seen wins.
\<close>

theorem primaryEmotion_first_seen_most_common:
  "(emotions (sessionData s) = [] \<longrightarrow> primaryEmotion (generateSummary now s) = ''none'')
   \<and> (emotions (sessionData s) \<noteq> []
        \<and> list_all plainLabel (map emotion (emotions (sessionData s))) \<longrightarrow>
      (\<exists>pre post.
         map emotion (emotions (sessionData s)) =
           pre @ primaryEmotion (generateSummary now s) # post
         \<and> primaryEmotion (generateSummary now s) \<notin> set pre
         \<and> (\<forall>l\<in>set pre. count_list (map emotion (emotions (sessionData s))) l
               < count_list (map emotion (emotions (sessionData s)))
                   (primaryEmotion (generateSummary now s)))
         \<and> (\<forall>l\<in>set (map emotion (emotions (sessionData s))).
               count_list (map emotion (emotions (sessionData s))) l
               \<le> count_list (map emotion (emotions (sessionData s)))
                   (primaryEmotion (generateSummary now s)))))"
proof (intro conjI impI)
  assume "emotions (sessionData s) = []"
  then show "primaryEmotion (generateSummary now s) = ''none''"
    by (simp add: generateSummary_primary)
next
  let ?ls = "map emotion (emotions (sessionData s))"
  assume a: "emotions (sessionData s) \<noteq> [] \<and> list_all plainLabel ?ls"
  then have ne: "?ls \<noteq> []" and plain: "list_all plainLabel ?ls" by simp_all
  have "primaryEmotion (generateSummary now s) =
          mostCommon (foldl (\<lambda>cs e. countEmotion e cs) [] ?ls) ''neutral'' 0"
    using a by (simp add: generateSummary_primary)
  with first_seen_most_common [OF ne plain]
  show "\<exists>pre post. ?ls = pre @ primaryEmotion (generateSummary now s) # post
         \<and> primaryEmotion (generateSummary now s) \<notin> set pre
         \<and> (\<forall>l\<in>set pre. count_list ?ls l
               < count_list ?ls (primaryEmotion (generateSummary now s)))
         \<and> (\<forall>l\<in>set ?ls. count_list ?ls l
               \<le> count_list ?ls (primaryEmotion (generateSummary now s)))"
    by simp
qed

text \<open>C2, witness. Three \<^verbatim>\<open>happy\<close> and three \<^verbatim>\<open>sad\<close> entries, \<^verbatim>\<open>happy\<close> seen first.\<close>

theorem primaryEmotion_first_seen_most_common_witness:
  "emotions (sessionData tieState) \<noteq> []
   \<and> list_all plainLabel (map emotion (emotions (sessionData tieState)))
   \<and> primaryEmotion (generateSummary 100 tieState) = ''happy''
   \<and> (\<exists>pre post.
         map emotion (emotions (sessionData tieState)) =
           pre @ primaryEmotion (generateSummary 100 tieState) # post
         \<and> primaryEmotion (generateSummary 100 tieState) \<notin> set pre
         \<and> (\<forall>l\<in>set pre. count_list (map emotion (emotions (sessionData tieState))) l
               < count_list (map emotion (emotions (sessionData tieState)))
                   (primaryEmotion (generateSummary 100 tieState)))
         \<and> (\<forall>l\<in>set (map emotion (emotions (sessionData tieState))).
               count_list (map emotion (emotions (sessionData tieState))) l
               \<le> count_list (map emotion (emotions (sessionData tieState)))
                   (primaryEmotion (generateSummary 100 tieState))))"
proof -
  have ne: "emotions (sessionData tieState) \<noteq> []"
    using tieState_labels by auto
  have plain: "list_all plainLabel (map emotion (emotions (sessionData tieState)))"
    by (simp add: tieState_labels plainLabel_examples)
  have happy: "primaryEmotion (generateSummary 100 tieState) = ''happy''"
    using ne
    by (simp add: generateSummary_primary tieState_labels countEmotion_def setOwn_def
        arrayIndex_def objectPrototypeNames_def)
  from primaryEmotion_first_seen_most_common [of tieState 100] ne plain happy
  show ?thesis by blast
qed

text \<open>
  C2 as stated fails. A started session without emotion entries has the primary emotion \<^verbatim>\<open>none\<close>, not
  \<^verbatim>\<open>neutral\<close>; and after the labels \<^verbatim>\<open>b\<close> and \<^verbatim>\<open>1\<close>, one entry each, the enumeration
  of \<^verbatim>\<open>emotionCounts\<close> starts with \<^verbatim>\<open>1\<close>, which wins the tie although \<^verbatim>\<open>b\<close> was seen
  first.
\<close>

theorem primaryEmotion_counterexample:
  "emotions (sessionData trackingState) = []
   \<and> primaryEmotion (generateSummary 20 trackingState) = ''none''
   \<and> primaryEmotion (generateSummary 20 trackingState) \<noteq> ''neutral''
   \<and> map emotion (emotions (sessionData indexLabelState)) = [''b'', ''1'']
   \<and> emotionCounts (generateSummary 20 indexLabelState) = [(''1'', Count 1), (''b'', Count 1)]
   \<and> primaryEmotion (generateSummary 20 indexLabelState) = ''1''"
proof -
  have e: "emotions (sessionData trackingState) = []"
    by (simp add: example_defs)
  have ne: "emotions (sessionData indexLabelState) \<noteq> []"
    using indexLabelState_labels by auto
  have c: "foldl (\<lambda>cs e. countEmotion e cs) [] [''b'', ''1''] = [(''1'', Count 1), (''b'', Count 1)]"
    by (simp add: countEmotion_def setOwn_def arrayIndex_def digitsValue_def
        objectPrototypeNames_def)
  have "emotionCounts (generateSummary 20 indexLabelState) =
      foldl (\<lambda>cs e. countEmotion e cs) [] (map emotion (emotions (sessionData indexLabelState)))"
    using ne by (simp add: generateSummary_def Let_def foldl_map)
  then have counts: "emotionCounts (generateSummary 20 indexLabelState) =
      [(''1'', Count 1), (''b'', Count 1)]"
    by (simp only: indexLabelState_labels c)
  have "primaryEmotion (generateSummary 20 indexLabelState) = ''1''"
    using ne by (simp add: generateSummary_primary indexLabelState_labels c del: foldl.simps)
  with e counts show ?thesis
    by (simp add: generateSummary_primary indexLabelState_labels)
qed

text \<open>
  \<^verbatim>\<open>exportData\<close> refuses a session without samples, and the summary of a session with
  emotion entries reports both totals.
\<close>

lemma export_no_data:
  "emotions (sessionData s) = [] \<Longrightarrow> gazePoints (sessionData s) = [] \<Longrightarrow>
     exportData api t t' s = addLogEntry (Text ''No data to export.'') s"
  by (simp add: exportData_def)

lemma summary_totals_with_emotions:
  "emotions (sessionData s) \<noteq> [] \<Longrightarrow>
     totalGazeSamples (generateSummary now s) = Some (length (gazePoints (sessionData s)))
     \<and> totalEmotionSamples (generateSummary now s) = Some (length (emotions (sessionData s)))"
  by (simp add: generateSummary_def Let_def)

text \<open>
  C1. Start at 0, one gaze frame at 10, stop, export at 20: the session is not empty and
  is exported, its summary comes from the early return of \<^verbatim>\<open>generateSummary\<close> and has
  neither \<open>totalGazeSamples\<close> nor \<open>totalEmotionSamples\<close>, although one gaze sample is
  recorded and exported.
\<close>

theorem export_gaze_only_summary_without_totals:
  "apiExports (exportData True 20 20 gazeOnlySession) =
     [\<lparr> sessionId = Some 0, startTimeISO = 0, endTimeISO = 20,
        exportedEmotions = [],
        exportedGazePoints = [\<lparr>gaze_x = 1/2, gaze_y = 2/5, gaze_timestamp = 10\<rparr>],
        exportedSummary =
          \<lparr> primaryEmotion = ''none'', emotionCounts = [],
            totalEmotionSamples = None, totalGazeSamples = None,
            sessionDurationMs = None \<rparr> \<rparr>]"
  by (simp add: gazeOnlySession_def stopTracking_def exportData_def generateSummary_def
      example_defs)

subsection \<open>Unrecognised and unparseable frames\<close>

text \<open>
  C3, amended. A frame whose discriminator is neither \<^verbatim>\<open>tracking_data\<close> nor
  \<^verbatim>\<open>command_response\<close>, a frame that is not JSON included, leaves the whole state as it
  is: recorder, connection and tracking flag. The handler returns normally, except
  that it throws a SyntaxError on a frame that is not JSON and a TypeError on the JSON
  value \<^verbatim>\<open>null\<close>.
\<close>

theorem unrecognised_frame_dropped:
  assumes "discriminator ev \<noteq> Some (JStr ''tracking_data'')"
    and "discriminator ev \<noteq> Some (JStr ''command_response'')"
  shows "stateOf (onmessage t1 t2 rnd ev s) = s
       \<and> onmessage t1 t2 rnd ev s =
           (if ev = NotJSON then Threw SyntaxError s
            else if ev = Parsed JNull then Threw TypeError s
            else Done s)"
proof (cases ev)
  case NotJSON
  then show ?thesis by (simp add: onmessage_def)
next
  case (Parsed m)
  show ?thesis
  proof (cases "getProp (Some m) ''type''")
    case (Inl e)
    then have "m = JNull" and "e = TypeError"
      by (cases m; simp)+
    then show ?thesis using Parsed by (simp add: onmessage_def)
  next
    case (Inr ty)
    then have "m \<noteq> JNull" by auto
    moreover from assms Parsed Inr have "ty \<noteq> Some (JStr ''tracking_data'')"
      and "ty \<noteq> Some (JStr ''command_response'')"
      by (simp_all add: discriminator_def)
    ultimately show ?thesis using Parsed Inr by (simp add: onmessage_def)
  qed
qed

text \<open>C3, witness. A frame of an unknown type \<^verbatim>\<open>heartbeat\<close>, received while tracking.\<close>

theorem unrecognised_frame_dropped_witness:
  "discriminator (Parsed (JObj [(''type'', JStr ''heartbeat'')])) = Some (JStr ''heartbeat'')
   \<and> onmessage 1 2 0 (Parsed (JObj [(''type'', JStr ''heartbeat'')])) trackingState
       = Done trackingState"
proof -
  have d: "discriminator (Parsed (JObj [(''type'', JStr ''heartbeat'')])) = Some (JStr ''heartbeat'')"
    by (simp add: discriminator_def)
  have a: "discriminator (Parsed (JObj [(''type'', JStr ''heartbeat'')])) \<noteq> Some (JStr ''tracking_data'')"
    and b: "discriminator (Parsed (JObj [(''type'', JStr ''heartbeat'')])) \<noteq> Some (JStr ''command_response'')"
    by (simp_all add: d)
  from unrecognised_frame_dropped [OF a b, of 1 2 0 trackingState] d show ?thesis by simp
qed

text \<open>
  C3 as stated fails. A frame that is not JSON, received while tracking: the handler
  throws.
\<close>

theorem unparseable_frame_throws:
  "onmessage 1 2 0 NotJSON trackingState = Threw SyntaxError trackingState
   \<and> onmessage 1 2 0 NotJSON trackingState \<noteq> Done trackingState"
  by (simp add: onmessage_def)

text \<open>
  A \<^verbatim>\<open>tracking_data\<close> frame with a valid gaze section and an emotion section whose label
  is a number: the gaze sample is recorded before the handler throws.
\<close>

lemma malformed_payload_partly_recorded:
  "onmessage 1 2 0
     (trackingFrame [gazeSection 0 1, (''emotion'', JObj [(''emotion'', JNum 5)])])
     trackingState
   = Threw TypeError
       (trackingState\<lparr>gazeData := (Some (JNum 0), Some (JNum 1)),
          currentEmotions := None,
          sessionData := \<lparr> startTime = Some 0, emotions = [],
            gazePoints = [\<lparr>gaze_x = 0, gaze_y = 1, gaze_timestamp = 1\<rparr>] \<rparr>\<rparr>)"
  by (simp add: example_defs)

subsection \<open>Recorded emotion entries\<close>

text \<open>
  C8, amended. One call of \<^verbatim>\<open>handleTrackingData\<close> leaves the emotion entries as they
  are or appends exactly one entry, made of the label, a copy of the scores and the
  clock reading; the confidence of the frame is not part of it.
\<close>

theorem recorded_emotion_entry_fields:
  "emotions (sessionData (stateOf (handleTrackingData t1 t2 rnd d s))) =
     emotions (sessionData s)
   \<or> (\<exists>em label sc.
         getProp d ''emotion'' = Inr em
       \<and> getProp em ''emotion'' = Inr (Some (JStr label))
       \<and> getProp em ''emotion_scores'' = Inr sc
       \<and> emotions (sessionData (stateOf (handleTrackingData t1 t2 rnd d s))) =
           emotions (sessionData s) @
             [\<lparr>emotion = label, scores = spread sc, timestamp = t2\<rparr>])"
proof (cases "isTracking s")
  case False
  then show ?thesis by (simp add: handleTrackingData_idle)
next
  case True
  define r where "r = (case getProp d ''gaze'' of Inl e \<Rightarrow> Threw e s
           | Inr gaze \<Rightarrow> if truthy gaze then gazeBranch t1 gaze s else Done s)"
  have r: "emotions (sessionData (stateOf r)) = emotions (sessionData s)"
    by (simp add: r_def gazeBranch_def Let_def
        split: sum.splits option.splits json.splits prod.splits)
  have h: "handleTrackingData t1 t2 rnd d s =
      andThen r (\<lambda>s'. case getProp d ''emotion'' of Inl e \<Rightarrow> Threw e s'
           | Inr em \<Rightarrow> if truthy em then emotionBranch t2 rnd em s' else Done s')"
    using True by (simp add: handleTrackingData_def r_def)
  show ?thesis
  proof (cases r)
    case (Threw e s')
    with r h show ?thesis by simp
  next
    case (Done s')
    with r have s': "emotions (sessionData s') = emotions (sessionData s)" by simp
    show ?thesis
    proof (cases "getProp d ''emotion''")
      case (Inl e)
      with h Done s' show ?thesis by simp
    next
      case (Inr em)
      show ?thesis
      proof (cases "truthy em")
        case False
        with h Done s' Inr show ?thesis by simp
      next
        case t: True
        have "emotions (sessionData (stateOf (emotionBranch t2 rnd em s'))) =
                 emotions (sessionData s')
              \<or> (\<exists>label sc. getProp em ''emotion'' = Inr (Some (JStr label))
                   \<and> getProp em ''emotion_scores'' = Inr sc
                   \<and> emotions (sessionData (stateOf (emotionBranch t2 rnd em s'))) =
                       emotions (sessionData s') @
                         [\<lparr>emotion = label, scores = spread sc, timestamp = t2\<rparr>])"
          by (simp add: emotionBranch_def Let_def split: sum.splits option.splits json.splits)
        with h Done s' Inr t show ?thesis by auto
      qed
    qed
  qed
qed

text \<open>
  C8 as stated fails. Two frames that differ in the confidence only, 90 and 10, leave the
  same recorded session: the entry holds the label, the scores and the time, and no
  confidence.
\<close>

theorem recorded_entry_without_confidence:
  "sessionData (stateOf (handleTrackingData 1 2 1
       (Some (JObj [emotionSection ''happy'' 90])) trackingState))
   = sessionData (stateOf (handleTrackingData 1 2 1
       (Some (JObj [emotionSection ''happy'' 10])) trackingState))
   \<and> emotions (sessionData (stateOf (handleTrackingData 1 2 1
       (Some (JObj [emotionSection ''happy'' 90])) trackingState)))
   = [\<lparr>emotion = ''happy'', scores = [(''happy'', JNum 1)], timestamp = 2\<rparr>]"
  by (simp add: example_defs)

subsection \<open>Commands and the connection\<close>

text \<open>
  C7, amended. While the socket is not open, none of the three commands is written to
  it. Start is refused: it logs that there is no connection and changes nothing else.
  Stop and calibrate do not report anything: they skip the send and otherwise proceed,
  calibrate changing the log only, stop ending the session and enabling export.
\<close>

theorem no_command_sent_unless_open:
  assumes "wsConnection s \<noteq> Some OPEN"
  shows "sent (startTracking now s) = sent s
       \<and> sent (stopTracking s) = sent s
       \<and> sent (calibrateGaze s) = sent s
       \<and> startTracking now s = addLogEntry (Text ''Cannot start: No connection to server.'') s
       \<and> onlyLogged s (startTracking now s)
       \<and> onlyLogged s (calibrateGaze s)
       \<and> (isTracking s \<longrightarrow>
            \<not> isTracking (stopTracking s) \<and> \<not> exportBtn (stopTracking s))"
  using assms
  by (simp add: startTracking_def stopTracking_def calibrateGaze_def onlyLogged_def Let_def
      addLogEntry_def)

text \<open>C7, witness. The three commands on a tracking session whose socket is closing.\<close>

theorem no_command_sent_unless_open_witness:
  "wsConnection closingState \<noteq> Some OPEN
   \<and> isTracking closingState
   \<and> sent closingState = [start_tracking]
   \<and> sent (startTracking 5 closingState) = [start_tracking]
   \<and> sent (stopTracking closingState) = [start_tracking]
   \<and> sent (calibrateGaze closingState) = [start_tracking]
   \<and> \<not> isTracking (stopTracking closingState)
   \<and> \<not> exportBtn (stopTracking closingState)"
proof -
  have h: "wsConnection closingState \<noteq> Some OPEN"
    by (simp add: closingState_def)
  have t: "isTracking closingState"
    by (simp add: closingState_def isTracking_trackingState)
  have "sent closingState = [start_tracking]"
    by (simp add: closingState_def example_defs)
  with no_command_sent_unless_open [OF h, of 5] h t show ?thesis by simp
qed

text \<open>
  C7 as stated fails. Stop on a tracking session whose socket is closing does not fail: it ends the session,
  enables start and export, and logs that the session was stopped.
\<close>

theorem stop_while_closing_succeeds:
  "wsConnection closingState \<noteq> Some OPEN
   \<and> \<not> onlyLogged closingState (stopTracking closingState)
   \<and> stopTracking closingState =
       closingState\<lparr>isTracking := False, startBtn := False, stopBtn := True,
         calibrateBtn := True, exportBtn := False,
         logContainer := logContainer closingState @
           [Text ''Stopping tracking session...'',
            Text ''Session stopped. Data can now be exported.'']\<rparr>"
  by (simp add: closingState_def stopTracking_def onlyLogged_def example_defs)

subsection \<open>Channel close and error\<close>

text \<open>
  C9. When the channel goes down, by a close event or by an error event with the close
  event that follows it, in any state, tracking ends and the start, stop and calibrate
  buttons are disabled; the recorded session and the export button stay as they are,
  and an export afterwards hands over the same objects as an export before.
\<close>

theorem channel_down_returns_to_idle:
  "\<not> isTracking (channelClose s)
   \<and> startBtn (channelClose s) \<and> stopBtn (channelClose s) \<and> calibrateBtn (channelClose s)
   \<and> sessionData (channelClose s) = sessionData s
   \<and> exportBtn (channelClose s) = exportBtn s
   \<and> apiExports (exportData api t t' (channelClose s)) = apiExports (exportData api t t' s)
   \<and> downloads (exportData api t t' (channelClose s)) = downloads (exportData api t t' s)
   \<and> \<not> isTracking (channelError s)
   \<and> startBtn (channelError s) \<and> stopBtn (channelError s) \<and> calibrateBtn (channelError s)
   \<and> sessionData (channelError s) = sessionData s
   \<and> exportBtn (channelError s) = exportBtn s
   \<and> apiExports (exportData api t t' (channelError s)) = apiExports (exportData api t t' s)
   \<and> downloads (exportData api t t' (channelError s)) = downloads (exportData api t t' s)"
  by (simp add: channelClose_def channelError_def onclose_def onerror_def exportData_def
      generateSummary_def Let_def addLogEntry_def)

subsection \<open>Stopping the worker\<close>

text \<open>
  C4, amended. Without a worker handle, after no start or after the close event, stop
  changes nothing and attempts no termination. With a handle, each stop issues exactly
  one attempt, \<^verbatim>\<open>taskkill\<close> on Windows and \<^verbatim>\<open>kill\<close> elsewhere, and keeps the handle; a
  second stop is without effect once the close event has cleared the handle.
\<close>

theorem stop_worker_attempts:
  "(pythonProcess sv = None \<longrightarrow> stopPythonBackend p sv = sv)
   \<and> (\<forall>c. pythonProcess sv = Some c \<longrightarrow>
         terminations (stopPythonBackend p sv) =
           terminations sv @ [if p = win32 then Taskkill (pid c) else Kill (pid c)])
   \<and> pythonProcess (stopPythonBackend p sv) = pythonProcess sv
   \<and> stopPythonBackend p (onProcessClose (stopPythonBackend p sv)) =
       onProcessClose (stopPythonBackend p sv)"
  by (simp add: stopPythonBackend_def onProcessClose_def split: option.splits)

text \<open>
  C4, witness. Stop before any start, and stop, close event, stop on a running worker:
  one attempt.
\<close>

theorem stop_worker_attempts_witness:
  "pythonProcess \<lparr>pythonProcess = None, terminations = []\<rparr> = None
   \<and> stopPythonBackend win32 \<lparr>pythonProcess = None, terminations = []\<rparr> =
       \<lparr>pythonProcess = None, terminations = []\<rparr>
   \<and> pythonProcess runningWorker = Some \<lparr>pid = Some 4242\<rparr>
   \<and> terminations (stopPythonBackend other_platform runningWorker) = [Kill (Some 4242)]
   \<and> terminations (stopPythonBackend other_platform
        (onProcessClose (stopPythonBackend other_platform runningWorker))) = [Kill (Some 4242)]"
proof -
  have n: "pythonProcess \<lparr>pythonProcess = None, terminations = []\<rparr> = None" by simp
  have r: "pythonProcess runningWorker = Some \<lparr>pid = Some 4242\<rparr>"
    and t: "terminations runningWorker = []"
    by (simp_all add: runningWorker_def startPythonBackend_def)
  from stop_worker_attempts [of "\<lparr>pythonProcess = None, terminations = []\<rparr>" win32] n
  have a: "stopPythonBackend win32 \<lparr>pythonProcess = None, terminations = []\<rparr> =
       \<lparr>pythonProcess = None, terminations = []\<rparr>" by blast
  from stop_worker_attempts [of runningWorker other_platform] r t
  have b: "terminations (stopPythonBackend other_platform runningWorker) = [Kill (Some 4242)]"
    and c: "stopPythonBackend other_platform
        (onProcessClose (stopPythonBackend other_platform runningWorker)) =
       onProcessClose (stopPythonBackend other_platform runningWorker)"
    by simp_all
  have "terminations (onProcessClose (stopPythonBackend other_platform runningWorker)) =
      [Kill (Some 4242)]"
    using b by (simp add: onProcessClose_def)
  with n a r b c show ?thesis by simp
qed

text \<open>
  C4 as stated fails. Stop twice in a row on a running worker, with no close event in between, as the
  handlers of \<^verbatim>\<open>window-all-closed\<close> and \<^verbatim>\<open>will-quit\<close> do: two termination attempts.
\<close>

theorem stop_twice_kills_twice:
  "terminations (stopPythonBackend other_platform (stopPythonBackend other_platform runningWorker))
     = [Kill (Some 4242), Kill (Some 4242)]"
  by (simp add: runningWorker_def startPythonBackend_def stopPythonBackend_def)

end
